theory Spec2Isabelle
  imports Main "HOL-Library.Word"
begin

section \<open>Go values: panics, pointers, errors and the log\<close>

text \<open>
  A Go function either returns or panics. A panic is a value of \<open>go_panic\<close>: the
  explicit \<open>panic(msg)\<close> calls of the source carry their message, and a dereference
  of a nil pointer is the run-time panic \<open>NilPointerDereference\<close>. A function that
  can panic returns \<open>go_panic + 'a\<close>, the panic on the left.
\<close>

datatype go_panic = Panic string | NilPointerDereference

text \<open>
  A Go pointer is nil or the address of an object. Objects live in a store (one map per
  pointee type, since Go pointers are typed); a non-nil pointer always has a pointee, so
  the maps are total functions. Two struct values holding the same address share the
  pointee, as they do in Go.
\<close>

type_synonym addr = nat

definition deref :: "addr option \<Rightarrow> (addr \<Rightarrow> 'a) \<Rightarrow> go_panic + 'a" where
  "deref p h = (case p of None \<Rightarrow> Inl NilPointerDereference | Some x \<Rightarrow> Inr (h x))"

fun andThen :: "go_panic + 'a \<Rightarrow> ('a \<Rightarrow> go_panic + 'b) \<Rightarrow> go_panic + 'b" where
  "andThen (Inl e) f = Inl e"
| "andThen (Inr x) f = f x"

text \<open>
  Go's \<open>l && r\<close>: \<open>r\<close> is evaluated only when \<open>l\<close> is true, so a panic in \<open>r\<close>
  happens only then.
\<close>

fun andalso :: "go_panic + bool \<Rightarrow> go_panic + bool \<Rightarrow> go_panic + bool" where
  "andalso (Inl e) r = Inl e"
| "andalso (Inr False) r = Inr False"
| "andalso (Inr True) r = r"

section \<open>The CycloneDX data model\<close>

text \<open>
  Modelled from the spec: the types of the CycloneDX library (\<open>cdx.Component\<close>,
  \<open>cdx.CryptoProperties\<close>, \<open>cdx.CryptoAlgorithmProperties\<close>,
  \<open>cdx.CertificateProperties\<close>, \<open>cdx.RelatedCryptoMaterialProperties\<close>,
  \<open>cdx.Dependency\<close>, \<open>cdx.BOM\<close>) are declared outside the repository. The
  records below hold the fields the source reads or writes, with the pointer fields the
  source dereferences (\<open>*a.CryptoProperties.AlgorithmProperties.CertificationLevel\<close>) or
  compares with nil; the enumerations of the library are Go string types and are strings
  here. Fields no function of the plugin touches are left out.
\<close>

type_synonym BOMReference = string

record CryptoAlgorithmProperties =
  Primitive :: string
  ExecutionEnvironment :: string
  ImplementationPlatform :: string
  CertificationLevel :: "addr option"
  Padding :: string
  CryptoFunctions :: "addr option"

record CertificateProperties =
  SignatureAlgorithmRef :: BOMReference
  SubjectPublicKeyRef :: BOMReference

record RelatedCryptoMaterialProperties =
  AlgorithmRef :: BOMReference

record CryptoProperties =
  AssetType :: string
  AlgorithmProperties :: "addr option"
  CertificateProperties :: "addr option"
  RelatedCryptoMaterialProperties :: "addr option"
  OID :: string

record Component =
  BOMRef :: string
  Name :: string
  CryptoProperties :: "addr option"

text \<open>The store: one map per pointee type.\<close>

record store =
  cryptoPropertiesAt :: "addr \<Rightarrow> CryptoProperties"
  algorithmPropertiesAt :: "addr \<Rightarrow> CryptoAlgorithmProperties"
  certificatePropertiesAt :: "addr \<Rightarrow> CertificateProperties"
  relatedCryptoMaterialPropertiesAt :: "addr \<Rightarrow> RelatedCryptoMaterialProperties"
  certificationLevelsAt :: "addr \<Rightarrow> string list"
  cryptoFunctionsAt :: "addr \<Rightarrow> string list"

definition CryptoAssetTypeAlgorithm :: string where
  "CryptoAssetTypeAlgorithm = ''algorithm''"

section \<open>Equivalence of algorithm components\<close>

text \<open>
  Reading a field through the pointers of a component, as the selector expressions of the
  source do: \<open>c.CryptoProperties.f\<close> dereferences \<open>c.CryptoProperties\<close>, and
  \<open>c.CryptoProperties.AlgorithmProperties.f\<close> dereferences the algorithm properties
  as well. \<open>eqOperands\<close> is Go's \<open>l == r\<close>: the left operand is evaluated first.
\<close>

definition cryptoProperty :: "store \<Rightarrow> Component \<Rightarrow> (CryptoProperties \<Rightarrow> 'a) \<Rightarrow> go_panic + 'a" where
  "cryptoProperty s c f =
     andThen (deref (CryptoProperties c) (cryptoPropertiesAt s)) (\<lambda>cp. Inr (f cp))"

definition algorithmProperty ::
    "store \<Rightarrow> Component \<Rightarrow> (CryptoAlgorithmProperties \<Rightarrow> 'a) \<Rightarrow> go_panic + 'a" where
  "algorithmProperty s c f =
     andThen (cryptoProperty s c AlgorithmProperties) (\<lambda>p.
     andThen (deref p (algorithmPropertiesAt s)) (\<lambda>ap. Inr (f ap)))"

definition eqOperands :: "go_panic + 'a \<Rightarrow> go_panic + 'a \<Rightarrow> go_panic + bool" where
  "eqOperands l r = andThen l (\<lambda>x. andThen r (\<lambda>y. Inr (x = y)))"

text \<open>
  \<open>strippedAlgorithmEquals\<close>: the guard panics when either component is not an
  algorithm (\<open>||\<close> evaluates \<open>b\<close> only when \<open>a\<close> is one); the result is the chain
  of \<open>&&\<close> in the order of the source, each operand reading through the pointers it
  names. \<open>slices.Equal\<close> compares lengths and elements, which is equality of lists.
\<close>

definition strippedAlgorithmEquals :: "store \<Rightarrow> Component \<Rightarrow> Component \<Rightarrow> go_panic + bool" where
  "strippedAlgorithmEquals s a b =
     andThen (cryptoProperty s a AssetType) (\<lambda>ta.
       if ta \<noteq> CryptoAssetTypeAlgorithm
       then Inl (Panic ''scanner: strippedAlgorithmEquals was called on a non-algorithm component'')
       else andThen (cryptoProperty s b AssetType) (\<lambda>tb.
         if tb \<noteq> CryptoAssetTypeAlgorithm
         then Inl (Panic ''scanner: strippedAlgorithmEquals was called on a non-algorithm component'')
         else
           andalso (Inr (Name a = Name b))
          (andalso (eqOperands (algorithmProperty s a Primitive) (algorithmProperty s b Primitive))
          (andalso (eqOperands (algorithmProperty s a ExecutionEnvironment)
                               (algorithmProperty s b ExecutionEnvironment))
          (andalso (eqOperands (algorithmProperty s a ImplementationPlatform)
                               (algorithmProperty s b ImplementationPlatform))
          (andalso (eqOperands
                      (andThen (algorithmProperty s a CertificationLevel)
                         (\<lambda>p. deref p (certificationLevelsAt s)))
                      (andThen (algorithmProperty s b CertificationLevel)
                         (\<lambda>p. deref p (certificationLevelsAt s))))
          (andalso (eqOperands
                      (andThen (algorithmProperty s a CryptoFunctions)
                         (\<lambda>p. deref p (cryptoFunctionsAt s)))
                      (andThen (algorithmProperty s b CryptoFunctions)
                         (\<lambda>p. deref p (cryptoFunctionsAt s))))
          (andalso (eqOperands (cryptoProperty s a OID) (cryptoProperty s b OID))
                   (eqOperands (algorithmProperty s a Padding)
                               (algorithmProperty s b Padding))))))))))"

text \<open>
  \<open>strippedAlgorithmContains\<close>: the loop returns the first element of the list that is
  an algorithm and equivalent to the probe (the \<open>comp\<close> of the source);
  \<open>cdx.Component{}\<close> is the zero value.
\<close>

definition zeroComponent :: Component where
  "zeroComponent = \<lparr>BOMRef = [], Name = [], CryptoProperties = None\<rparr>"

fun containsLoop :: "store \<Rightarrow> Component \<Rightarrow> Component list \<Rightarrow> go_panic + (bool \<times> Component)" where
  "containsLoop s probe [] = Inr (False, zeroComponent)"
| "containsLoop s probe (comp2 # list) =
     andThen (andalso
                (eqOperands (cryptoProperty s comp2 AssetType) (Inr CryptoAssetTypeAlgorithm))
                (strippedAlgorithmEquals s probe comp2))
       (\<lambda>hit. if hit then Inr (True, comp2) else containsLoop s probe list)"

definition strippedAlgorithmContains :: "store \<Rightarrow> Component \<Rightarrow> Component list \<Rightarrow> go_panic + (bool \<times> Component)" where
  "strippedAlgorithmContains s probe list =
     andThen (cryptoProperty s probe AssetType) (\<lambda>t.
       if t \<noteq> CryptoAssetTypeAlgorithm
       then Inl (Panic ''scanner: strippedAlgorithmContains was called on a non-algorithm component'')
       else containsLoop s probe list)"

text \<open>
  The eight fields the specification lists for an algorithm asset, read through the
  pointers of a component: name, primitive, execution environment, implementation
  platform, certification levels, crypto functions, OID and padding. They exist when the
  component is an algorithm whose algorithm properties and both lists are present.
\<close>

definition algorithmFields ::
    "store \<Rightarrow> Component \<Rightarrow> (string \<times> string \<times> string \<times> string \<times> string list \<times> string list \<times> string \<times> string) option" where
  "algorithmFields s c =
     (case CryptoProperties c of None \<Rightarrow> None | Some x \<Rightarrow>
        let cp = cryptoPropertiesAt s x in
        if AssetType cp \<noteq> CryptoAssetTypeAlgorithm then None else
        (case AlgorithmProperties cp of None \<Rightarrow> None | Some y \<Rightarrow>
           let ap = algorithmPropertiesAt s y in
           (case CertificationLevel ap of None \<Rightarrow> None | Some l \<Rightarrow>
              (case CryptoFunctions ap of None \<Rightarrow> None | Some f \<Rightarrow>
                 Some (Name c, Primitive ap, ExecutionEnvironment ap, ImplementationPlatform ap,
                       certificationLevelsAt s l, cryptoFunctionsAt s f, OID cp, Padding ap)))))"

definition isAlgorithm :: "store \<Rightarrow> Component \<Rightarrow> bool" where
  "isAlgorithm s c =
     (case CryptoProperties c of None \<Rightarrow> False
      | Some x \<Rightarrow> AssetType (cryptoPropertiesAt s x) = CryptoAssetTypeAlgorithm)"

definition isNonAlgorithm :: "store \<Rightarrow> Component \<Rightarrow> bool" where
  "isNonAlgorithm s c =
     (case CryptoProperties c of None \<Rightarrow> False
      | Some x \<Rightarrow> AssetType (cryptoPropertiesAt s x) \<noteq> CryptoAssetTypeAlgorithm)"

section \<open>Rewriting references\<close>

text \<open>
  \<open>replaceBomRefUsages\<close>: \<open>for _, comp := range *components\<close> copies each element
  of the slice into the loop variable \<open>comp\<close>. \<open>replaceBody\<close> is one run of the
  body; it returns the loop variable and the store after it. An assignment to
  \<open>comp.BOMRef\<close> changes the loop variable; an assignment through
  \<open>comp.CryptoProperties\<close>, a pointer, changes the pointee in the store. Each
  \<open>continue\<close> ends the body. The second branch is an \<open>else if\<close>: it runs only when
  the certificate properties are nil.
\<close>

definition replaceBody :: "BOMReference \<Rightarrow> BOMReference \<Rightarrow> Component \<Rightarrow> store \<Rightarrow> Component \<times> store" where
  "replaceBody oldRef newRef element s =
     (let comp = (if BOMRef element = oldRef then element\<lparr>BOMRef := newRef\<rparr> else element) in
      case CryptoProperties comp of
        None \<Rightarrow> (comp, s)
      | Some x \<Rightarrow>
          (case CertificateProperties (cryptoPropertiesAt s x) of
             Some y \<Rightarrow>
               let cert = certificatePropertiesAt s y in
               if SignatureAlgorithmRef cert = oldRef
               then (comp, s\<lparr>certificatePropertiesAt :=
                              (certificatePropertiesAt s)(y := cert\<lparr>SignatureAlgorithmRef := newRef\<rparr>)\<rparr>)
               else if SubjectPublicKeyRef cert = oldRef
               then (comp, s\<lparr>certificatePropertiesAt :=
                              (certificatePropertiesAt s)(y := cert\<lparr>SubjectPublicKeyRef := newRef\<rparr>)\<rparr>)
               else (comp, s)
           | None \<Rightarrow>
               (case RelatedCryptoMaterialProperties (cryptoPropertiesAt s x) of
                  Some z \<Rightarrow>
                    let rel = relatedCryptoMaterialPropertiesAt s z in
                    if AlgorithmRef rel = oldRef
                    then (comp, s\<lparr>relatedCryptoMaterialPropertiesAt :=
                                   (relatedCryptoMaterialPropertiesAt s)(z := rel\<lparr>AlgorithmRef := newRef\<rparr>)\<rparr>)
                    else (comp, s)
                | None \<Rightarrow> (comp, s))))"

text \<open>
  The loop runs the body on every element in order and drops the loop variable after
  each run. No statement assigns to an element of \<open>*components\<close> or to the slice, so
  the slice after the call is the slice before it; the result of the model is that slice
  and the store after the loop. \<open>*components\<close> panics on a nil pointer.
\<close>

fun replaceLoop :: "BOMReference \<Rightarrow> BOMReference \<Rightarrow> Component list \<Rightarrow> store \<Rightarrow> store" where
  "replaceLoop oldRef newRef [] s = s"
| "replaceLoop oldRef newRef (element # rest) s =
     replaceLoop oldRef newRef rest (snd (replaceBody oldRef newRef element s))"

definition replaceBomRefUsages ::
    "BOMReference \<Rightarrow> BOMReference \<Rightarrow> Component list option \<Rightarrow> store \<Rightarrow> go_panic + (Component list \<times> store)" where
  "replaceBomRefUsages oldRef newRef components s =
     (case components of
        None \<Rightarrow> Inl NilPointerDereference
      | Some elements \<Rightarrow> Inr (elements, replaceLoop oldRef newRef elements s))"

text \<open>
  The references a component holds under a store: its own identifier, followed by the
  signature-algorithm and public-key references of its certificate properties and the
  algorithm reference of its related material, where it has them.
\<close>

definition refsOf :: "store \<Rightarrow> Component \<Rightarrow> BOMReference list" where
  "refsOf s c =
     BOMRef c #
     (case CryptoProperties c of
        None \<Rightarrow> []
      | Some x \<Rightarrow>
          (case CertificateProperties (cryptoPropertiesAt s x) of
             None \<Rightarrow> []
           | Some y \<Rightarrow> [SignatureAlgorithmRef (certificatePropertiesAt s y),
                         SubjectPublicKeyRef (certificatePropertiesAt s y)]) @
          (case RelatedCryptoMaterialProperties (cryptoPropertiesAt s x) of
             None \<Rightarrow> []
           | Some z \<Rightarrow> [AlgorithmRef (relatedCryptoMaterialPropertiesAt s z)]))"

section \<open>Dependency records\<close>

text \<open>
  Modelled from the spec: \<open>cdx.Dependency\<close> is declared in the CycloneDX library; it
  has the source identifier \<open>Ref\<close> and \<open>Dependencies\<close>, a pointer to the slice of
  target identifiers (the source writes \<open>*this[i].Dependencies\<close>). The target slices
  live in a store of their own. Slices are lists: the sharing of a backing array between
  two slice values is not modelled.
\<close>

record Dependency =
  Ref :: string
  Dependencies :: "addr option"

type_synonym targetStore = "addr \<Rightarrow> string list"

text \<open>\<open>IndexBomRefInDependencySlice\<close>: the first index whose record has the reference, or -1.\<close>

fun indexFrom :: "int \<Rightarrow> Dependency list \<Rightarrow> BOMReference \<Rightarrow> int" where
  "indexFrom i [] bomRef = - 1"
| "indexFrom i (dep # rest) bomRef = (if Ref dep = bomRef then i else indexFrom (i + 1) rest bomRef)"

definition IndexBomRefInDependencySlice :: "Dependency list \<Rightarrow> BOMReference \<Rightarrow> int" where
  "IndexBomRefInDependencySlice deps bomRef = indexFrom 0 deps bomRef"

text \<open>
  The inner loop of \<open>MergeDependencyStructSlice\<close> over the targets of the other
  record (the slice value \<open>*otherStruct.Dependencies\<close> is read once, when the loop
  starts): each target that \<open>*this[i].Dependencies\<close> does not contain is appended to
  it, through the pointer \<open>p\<close> of \<open>this[i]\<close>. The dereference panics when \<open>p\<close> is
  nil; with no target to merge it is never evaluated.
\<close>

fun mergeTargets :: "addr option \<Rightarrow> string list \<Rightarrow> targetStore \<Rightarrow> go_panic + targetStore" where
  "mergeTargets p [] h = Inr h"
| "mergeTargets p (s # rest) h =
     (case p of
        None \<Rightarrow> Inl NilPointerDereference
      | Some a \<Rightarrow> mergeTargets p rest (if s \<in> set (h a) then h else h(a := h a @ [s])))"

text \<open>
  \<open>MergeDependencyStructSlice\<close>: the result is the slice \<open>this\<close> and the store after
  the loop. \<open>append(this, otherStruct)\<close> copies the record, so the appended record
  holds the same pointer as the record of \<open>other\<close>.
\<close>

fun MergeDependencyStructSlice ::
    "Dependency list \<Rightarrow> Dependency list \<Rightarrow> targetStore \<Rightarrow> go_panic + (Dependency list \<times> targetStore)" where
  "MergeDependencyStructSlice this [] h = Inr (this, h)"
| "MergeDependencyStructSlice this (otherStruct # other) h =
     (let i = IndexBomRefInDependencySlice this (Ref otherStruct) in
      if i \<noteq> - 1
      then andThen (deref (Dependencies otherStruct) h) (\<lambda>targets.
           andThen (mergeTargets (Dependencies (this ! nat i)) targets h) (\<lambda>h'.
             MergeDependencyStructSlice this other h'))
      else MergeDependencyStructSlice (this @ [otherStruct]) other h)"

text \<open>
  \<open>dependencyMapToStructSlice\<close>: \<open>range\<close> over a Go map yields its entries in an
  order the language leaves unspecified and the runtime varies from one loop to the next.
  The map is a partial function, and the order of one run of the loop is the list
  \<open>order\<close> of its keys (\<open>isRangeOrder\<close>). Each iteration has a variable
  \<open>dependsOn\<close> of its own (the loop variables of Go 1.22) whose address the record
  takes: a fresh address \<open>next\<close> of the store.
\<close>

definition isRangeOrder :: "(BOMReference \<rightharpoonup> string list) \<Rightarrow> BOMReference list \<Rightarrow> bool" where
  "isRangeOrder dependencyMap order \<longleftrightarrow> distinct order \<and> set order = dom dependencyMap"

fun dependencyMapLoop ::
    "(BOMReference \<rightharpoonup> string list) \<Rightarrow> BOMReference list \<Rightarrow> Dependency list \<Rightarrow> targetStore \<Rightarrow> addr
      \<Rightarrow> Dependency list \<times> targetStore \<times> addr" where
  "dependencyMapLoop dependencyMap [] dependencies h next = (dependencies, h, next)"
| "dependencyMapLoop dependencyMap (ref # order) dependencies h next =
     (case dependencyMap ref of
        None \<Rightarrow> dependencyMapLoop dependencyMap order dependencies h next
      | Some dependsOn \<Rightarrow>
          dependencyMapLoop dependencyMap order
            (dependencies @ [\<lparr>Ref = ref, Dependencies = Some next\<rparr>])
            (h(next := dependsOn)) (Suc next))"

definition dependencyMapToStructSlice ::
    "(BOMReference \<rightharpoonup> string list) \<Rightarrow> BOMReference list \<Rightarrow> targetStore \<Rightarrow> addr
      \<Rightarrow> Dependency list \<times> targetStore \<times> addr" where
  "dependencyMapToStructSlice dependencyMap order h next =
     dependencyMapLoop dependencyMap order [] h next"

text \<open>
  The union the specification describes, on records by value: the existing targets,
  followed by each new target that is not among them, once, in the order of first
  appearance; a record whose reference is absent is appended whole.
\<close>

fun firstOccurrences :: "string list \<Rightarrow> string list \<Rightarrow> string list" where
  "firstOccurrences seen [] = []"
| "firstOccurrences seen (t # ts) =
     (if t \<in> set seen then firstOccurrences seen ts else t # firstOccurrences (seen @ [t]) ts)"

definition unionTargets :: "string list \<Rightarrow> string list \<Rightarrow> string list" where
  "unionTargets existing new = existing @ firstOccurrences existing new"



text \<open>
  A record read by value: its reference with the targets its pointer leads to (none for a
  nil pointer).
\<close>

definition ownTargets :: "targetStore \<Rightarrow> Dependency \<Rightarrow> string \<times> string list" where
  "ownTargets h d = (Ref d, case Dependencies d of None \<Rightarrow> [] | Some p \<Rightarrow> h p)"






section \<open>Errors and the log\<close>

text \<open>
  A Go \<open>error\<close> is nil (\<open>None\<close>) or an error value. The two sentinels the source
  tests for are constructors; \<open>ErrorString\<close> is any other leaf error (an I/O or a decoding
  error), and \<open>Wrapping\<close> is an error that wraps others (\<open>fmt.Errorf\<close> with \<open>%w\<close>,
  \<open>errors.Join\<close>). \<open>errors.Is\<close> walks the tree of wrapped errors and compares each
  with the target; a nil error matches no sentinel.
\<close>

datatype go_error =
    ErrParsingFailedAlthoughChecked
  | errX509UnknownAlgorithm
  | ErrorString string
  | Wrapping string "go_error list"

fun unwrapsTo :: "go_error \<Rightarrow> go_error \<Rightarrow> bool" where
  "unwrapsTo (Wrapping msg errs) target =
     (Wrapping msg errs = target \<or> (\<exists>e \<in> set errs. unwrapsTo e target))"
| "unwrapsTo e target = (e = target)"

definition errors_Is :: "go_error option \<Rightarrow> go_error \<Rightarrow> bool" where
  "errors_Is err target = (case err of None \<Rightarrow> False | Some e \<Rightarrow> unwrapsTo e target)"

text \<open>
  Modelled from the spec: \<open>GetParsingFailedAlthoughCheckedError\<close> of the package
  \<open>scanner/errors\<close> is not among the sources. The specification says that the
  recoverable condition is told from a fatal one by a sentinel error value checked along
  the call chain: the error it returns wraps the sentinel and the parse error.
\<close>

definition GetParsingFailedAlthoughCheckedError :: "go_error \<Rightarrow> string \<Rightarrow> go_error" where
  "GetParsingFailedAlthoughCheckedError parsingError plugin =
     Wrapping plugin [ErrParsingFailedAlthoughChecked, parsingError]"

text \<open>
  The log: each call of a logger appends an entry with its level and its message (the
  attributes of a structured message are left out). \<open>log.Warn(err.Error())\<close> logs the
  text of an error.
\<close>

datatype log_level = LevelInfo | LevelWarn | LevelError

datatype log_text = Text string | ErrorText go_error

type_synonym log_entry = "log_level \<times> log_text"

text \<open>
  An operation that may panic, and may not return when a loop inside it does not end:
  \<open>None\<close> is not returning.
\<close>

type_synonym 'a outcome = "(go_panic + 'a) option"

fun seq :: "'a outcome \<Rightarrow> ('a \<Rightarrow> 'b outcome) \<Rightarrow> 'b outcome" where
  "seq None f = None"
| "seq (Some (Inl e)) f = Some (Inl e)"
| "seq (Some (Inr x)) f = f x"

section \<open>Decoding certificates\<close>

text \<open>
  The decoders are functions of libraries and of files that are not among the sources;
  the plugin's functions take them as parameters. A function that returns a value and an
  error returns a pair. \<open>pem.Decode\<close> returns the next block (or nil) and the rest of
  the input; \<open>pkcs7.Parse\<close> returns a pointer to the parsed object, of which the
  plugin reads the certificates.
\<close>

type_synonym byte = "8 word"

record pem_Block =
  Type :: string
  Bytes :: "byte list"

record ('cert, 'x509) decoders =
  pem_Decode :: "byte list \<Rightarrow> pem_Block option \<times> byte list"
  parseCertificatesToX509CertificateWithMetadata ::
    "byte list \<Rightarrow> string \<Rightarrow> 'cert list \<times> go_error option"
  pkcs7_Parse :: "byte list \<Rightarrow> 'x509 list option \<times> go_error option"
  newX509CertificateWithMetadata :: "'x509 \<Rightarrow> string \<Rightarrow> 'cert \<times> go_error option"

text \<open>
  The first loop of \<open>parsex509CertFromPath\<close>. It ends when the rest is empty or no
  block is found; whether it ends is up to the decoder, so the loop is a partial
  function.
\<close>

partial_function (option) decodeBlocks ::
    "(byte list \<Rightarrow> pem_Block option \<times> byte list) \<Rightarrow> byte list \<Rightarrow> pem_Block list \<Rightarrow> log_entry list
      \<Rightarrow> (pem_Block list \<times> log_entry list) option" where
  "decodeBlocks decode rest blocks lg =
     (if length rest \<noteq> 0
      then (case decode rest of
              (Some newBlock, rest') \<Rightarrow>
                if Type newBlock \<noteq> ''CERTIFICATE''
                then decodeBlocks decode rest' blocks
                       (lg @ [(LevelWarn,
                               Text ''PEM file contains part that is not yet supported, continuing anyway'')])
                else decodeBlocks decode rest' (blocks @ [newBlock]) lg
            | (None, rest') \<Rightarrow> Some (blocks, lg))
      else Some (blocks, lg))"

declare decodeBlocks.simps [code]

text \<open>The second loop: a block that fails to parse ends it with what that parse returned.\<close>

fun parseBlocks ::
    "(byte list \<Rightarrow> string \<Rightarrow> 'cert list \<times> go_error option) \<Rightarrow> string \<Rightarrow> pem_Block list \<Rightarrow> 'cert list
      \<Rightarrow> 'cert list \<times> go_error option" where
  "parseBlocks parse path [] certs = (certs, None)"
| "parseBlocks parse path (block # blocks) certs =
     (case parse (Bytes block) path of
        (moreCerts, Some err) \<Rightarrow> (moreCerts, Some err)
      | (moreCerts, None) \<Rightarrow> parseBlocks parse path blocks (certs @ moreCerts))"

definition parsex509CertFromPath ::
    "('cert, 'x509) decoders \<Rightarrow> byte list \<Rightarrow> string \<Rightarrow> log_entry list
      \<Rightarrow> (('cert list \<times> go_error option) \<times> log_entry list) option" where
  "parsex509CertFromPath env raw path lg =
     Option.bind (decodeBlocks (pem_Decode env) raw [] lg) (\<lambda>(blocks, lg').
       if length blocks = 0
       then Some (parseCertificatesToX509CertificateWithMetadata env raw path, lg')
       else Some (parseBlocks (parseCertificatesToX509CertificateWithMetadata env) path blocks [], lg'))"

text \<open>
  \<open>parsePKCS7FromPath\<close>: \<open>block.Bytes\<close> dereferences the block that
  \<open>pem.Decode\<close> returned, with no test for nil.
\<close>

fun pkcs7Certificates ::
    "('x509 \<Rightarrow> string \<Rightarrow> 'cert \<times> go_error option) \<Rightarrow> string \<Rightarrow> 'x509 list \<Rightarrow> 'cert list
      \<Rightarrow> 'cert list \<times> go_error option" where
  "pkcs7Certificates new path [] certsWithMetadata = (certsWithMetadata, None)"
| "pkcs7Certificates new path (cert # certs) certsWithMetadata =
     (case new cert path of
        (certWithMetadata, Some err) \<Rightarrow> ([], Some err)
      | (certWithMetadata, None) \<Rightarrow>
          pkcs7Certificates new path certs (certsWithMetadata @ [certWithMetadata]))"

definition parsePKCS7FromPath ::
    "('cert, 'x509) decoders \<Rightarrow> byte list \<Rightarrow> string \<Rightarrow> go_panic + ('cert list \<times> go_error option)" where
  "parsePKCS7FromPath env raw path =
     (case fst (pem_Decode env raw) of
        None \<Rightarrow> Inl NilPointerDereference
      | Some block \<Rightarrow>
          (case pkcs7_Parse env (Bytes block) of
             (pkcs7Object, err) \<Rightarrow>
               (case (err, pkcs7Object) of
                  (None, Some certificates) \<Rightarrow>
                    Inr (pkcs7Certificates (newX509CertificateWithMetadata env) path certificates [])
                | _ \<Rightarrow> Inr ([], err))))"

text \<open>
  The PEM blocks of an input, in order of appearance: what decoding from the start finds
  until the input is used up or no further block is found.
\<close>

inductive pemBlocks ::
    "(byte list \<Rightarrow> pem_Block option \<times> byte list) \<Rightarrow> byte list \<Rightarrow> pem_Block list \<Rightarrow> bool" where
  used_up: "pemBlocks decode [] []"
| no_block: "rest \<noteq> [] \<Longrightarrow> fst (decode rest) = None \<Longrightarrow> pemBlocks decode rest []"
| block: "rest \<noteq> [] \<Longrightarrow> decode rest = (Some b, rest') \<Longrightarrow> pemBlocks decode rest' bs \<Longrightarrow>
          pemBlocks decode rest (b # bs)"

definition certificateBlocks :: "pem_Block list \<Rightarrow> pem_Block list" where
  "certificateBlocks bs = filter (\<lambda>b. Type b = ''CERTIFICATE'') bs"

definition unsupportedWarnings :: "pem_Block list \<Rightarrow> log_entry list" where
  "unsupportedWarnings bs =
     map (\<lambda>b. (LevelWarn, Text ''PEM file contains part that is not yet supported, continuing anyway''))
       (filter (\<lambda>b. Type b \<noteq> ''CERTIFICATE'') bs)"


section \<open>The walk over the filesystem\<close>

text \<open>
  \<open>filepath.WalkDir\<close> of the standard library calls its function on every entry under
  the root, in lexical order, and stops with the first error the function returns (the
  two values \<open>SkipDir\<close> and \<open>SkipAll\<close>, which no function of the sources returns, are
  not modelled). An entry is what the function is called with: the path, whether it is a
  directory, the error of visiting it, and what \<open>filepath.Rel\<close> returns for the root
  and the path. The state \<open>'s\<close> is what the function may change.
\<close>

record DirEntry =
  entryPath :: string
  IsDir :: bool
  entryErr :: "go_error option"
  entryRel :: "string \<times> go_error option"

fun filepath_WalkDir ::
    "DirEntry list \<Rightarrow> (DirEntry \<Rightarrow> 's \<Rightarrow> (go_error option \<times> 's) outcome) \<Rightarrow> 's
      \<Rightarrow> (go_error option \<times> 's) outcome" where
  "filepath_WalkDir [] fn st = Some (Inr (None, st))"
| "filepath_WalkDir (d # entries) fn st =
     seq (fn d st) (\<lambda>(err, st').
       case err of
         Some e \<Rightarrow> Some (Inr (Some e, st'))
       | None \<Rightarrow> filepath_WalkDir entries fn st')"

text \<open>
  \<open>PlainFilesystem.WalkDir\<close>: the function it passes to \<open>filepath.WalkDir\<close>. The
  state of the analysis function \<open>fn\<close> comes with the log, to which the warning is
  appended.
\<close>

definition walkDirFn ::
    "(string \<Rightarrow> 'c \<times> log_entry list \<Rightarrow> (go_error option \<times> 'c \<times> log_entry list) outcome)
      \<Rightarrow> DirEntry \<Rightarrow> 'c \<times> log_entry list \<Rightarrow> (go_error option \<times> 'c \<times> log_entry list) outcome" where
  "walkDirFn fn d st =
     (case entryErr d of
        Some err \<Rightarrow> Some (Inr (Some err, st))
      | None \<Rightarrow>
          if IsDir d then Some (Inr (None, st))
          else (case entryRel d of
                  (relativePath, Some err) \<Rightarrow> Some (Inr (Some err, st))
                | (relativePath, None) \<Rightarrow>
                    seq (fn relativePath st) (\<lambda>(err, c, lg).
                      case err of
                        None \<Rightarrow> Some (Inr (None, c, lg))
                      | Some e \<Rightarrow>
                          if errors_Is (Some e) ErrParsingFailedAlthoughChecked
                          then Some (Inr (None, c, lg @ [(LevelWarn, ErrorText e)]))
                          else Some (Inr (Some e, c, lg)))))"

text \<open>
  A plain filesystem is its root path; the entries under the root and the contents of the
  files are the state of the operating system, and come with it in the model.
\<close>

record PlainFilesystem =
  rootPath :: string
  tree :: "DirEntry list"
  files :: "string \<Rightarrow> byte list \<times> go_error option"

definition PlainFilesystem_WalkDir ::
    "PlainFilesystem
      \<Rightarrow> (string \<Rightarrow> 'c \<times> log_entry list \<Rightarrow> (go_error option \<times> 'c \<times> log_entry list) outcome)
      \<Rightarrow> 'c \<times> log_entry list \<Rightarrow> (go_error option \<times> 'c \<times> log_entry list) outcome" where
  "PlainFilesystem_WalkDir plainFilesystem fn st =
     filepath_WalkDir (tree plainFilesystem) (walkDirFn fn) st"

text \<open>
  The interface \<open>Filesystem\<close>, as far as the plugin uses it: a record of the two
  methods. (The plugin calls \<open>fs.ReadFile\<close>; the interface of the walker's file has
  \<open>Open\<close> in its place.)
\<close>

record 'c Filesystem =
  WalkDir :: "(string \<Rightarrow> 'c \<times> log_entry list \<Rightarrow> (go_error option \<times> 'c \<times> log_entry list) outcome)
               \<Rightarrow> 'c \<times> log_entry list \<Rightarrow> (go_error option \<times> 'c \<times> log_entry list) outcome"
  ReadFile :: "string \<Rightarrow> byte list \<times> go_error option"

definition plainFilesystem :: "PlainFilesystem \<Rightarrow> 'c Filesystem" where
  "plainFilesystem p = \<lparr>WalkDir = PlainFilesystem_WalkDir p, ReadFile = files p\<rparr>"

text \<open>
  \<open>filepath.Ext\<close>: the suffix of the path from the last dot of its last element, empty
  when that element has no dot.
\<close>

fun extFrom :: "string \<Rightarrow> string \<Rightarrow> string" where
  "extFrom [] suffix = []"
| "extFrom (c # front) suffix =
     (if c = CHR ''/'' then []
      else if c = CHR ''.'' then c # suffix
      else extFrom front (c # suffix))"

definition filepath_Ext :: "string \<Rightarrow> string" where
  "filepath_Ext path = extFrom (rev path) []"

section \<open>The plugin\<close>

definition GetName :: string where
  "GetName = ''Certificate File Plugin''"

definition certificateExtensions :: "string list" where
  "certificateExtensions = [''.pem'', ''.cer'', ''.cert'', ''.der'', ''.ca-bundle'', ''.crt'']"

definition pkcs7Extensions :: "string list" where
  "pkcs7Extensions = [''.p7a'', ''.p7b'', ''.p7c'', ''.p7r'', ''.p7s'', ''.spc'']"

text \<open>
  The function \<open>UpdateBOM\<close> passes to \<open>fs.WalkDir\<close>. Its state is the slice
  \<open>certificates\<close> it appends to, with the log. The named result \<open>err\<close> is nil where
  the function returns it.
\<close>

definition UpdateBOM_fn ::
    "('cert, 'x509) decoders \<Rightarrow> (string \<Rightarrow> byte list \<times> go_error option) \<Rightarrow> string
      \<Rightarrow> 'cert list \<times> log_entry list \<Rightarrow> (go_error option \<times> 'cert list \<times> log_entry list) outcome" where
  "UpdateBOM_fn env readFile path st =
     (case st of (certificates, lg) \<Rightarrow>
        if filepath_Ext path \<in> set certificateExtensions
        then (case readFile path of
                (raw, Some err) \<Rightarrow> Some (Inr (Some err, certificates, lg))
              | (raw, None) \<Rightarrow>
                  (case parsex509CertFromPath env raw path lg of
                     None \<Rightarrow> None
                   | Some ((certs, Some err), lg') \<Rightarrow>
                       Some (Inr (Some (GetParsingFailedAlthoughCheckedError err GetName), certificates, lg'))
                   | Some ((certs, None), lg') \<Rightarrow> Some (Inr (None, certificates @ certs, lg'))))
        else if filepath_Ext path \<in> set pkcs7Extensions
        then (case readFile path of
                (raw, Some err) \<Rightarrow> Some (Inr (Some err, certificates, lg))
              | (raw, None) \<Rightarrow>
                  (case parsePKCS7FromPath env raw path of
                     Inl p \<Rightarrow> Some (Inl p)
                   | Inr (certs, Some err) \<Rightarrow>
                       Some (Inr (Some (GetParsingFailedAlthoughCheckedError err GetName), certificates, lg))
                   | Inr (certs, None) \<Rightarrow> Some (Inr (None, certificates @ certs, lg))))
        else Some (Inr (None, certificates, lg)))"

text \<open>
  The graph of the package \<open>bom-dag\<close> and the builder \<open>generateDAG\<close> are not among
  the sources; \<open>UpdateBOM\<close> takes them as parameters. They draw identifiers from the
  generator that \<open>uuid.SetRand\<close> installs, a global of the process: \<open>'w\<close> is that
  ambient state, which every operation on the graph may read and change. The run-time
  state of the plugin is the ambient state, the store of target slices with its next
  free address, and the log.
\<close>

record ('cert, 'dag, 'w) graphs =
  uuid_SetRand :: "int \<Rightarrow> 'w \<Rightarrow> 'w"
  NewBomDAG :: "'w \<Rightarrow> 'dag \<times> 'w"
  generateDAG :: "'cert \<Rightarrow> 'w \<Rightarrow> 'dag \<times> go_error option \<times> 'w"
  dag_Merge :: "'dag \<Rightarrow> 'dag \<Rightarrow> 'w \<Rightarrow> 'dag \<times> go_error option \<times> 'w"
  GetCDXComponents :: "'dag \<Rightarrow> 'w \<Rightarrow> Component list \<times> (BOMReference \<rightharpoonup> string list) \<times> go_error option \<times> 'w"
  rangeOrder :: "(BOMReference \<rightharpoonup> string list) \<Rightarrow> 'w \<Rightarrow> BOMReference list"

record 'w runtime =
  ambient :: 'w
  targetsAt :: targetStore
  nextAddr :: addr
  logged :: "log_entry list"

text \<open>
  The loop of \<open>UpdateBOM\<close> over the certificates. It returns the error that ended it
  (or nil), the graph and the state.
\<close>

fun mergeCertificates ::
    "('cert, 'dag, 'w) graphs \<Rightarrow> 'cert list \<Rightarrow> 'dag \<Rightarrow> 'w runtime \<Rightarrow> go_error option \<times> 'dag \<times> 'w runtime" where
  "mergeCertificates g [] dag rt = (None, dag, rt)"
| "mergeCertificates g (cert # certificates) dag rt =
     (case generateDAG g cert (ambient rt) of
        (certDAG, err, w1) \<Rightarrow>
          let rt1 = (if errors_Is err errX509UnknownAlgorithm
                     then rt\<lparr>ambient := w1,
                             logged := logged rt @
                               [(LevelInfo, Text ''X.509 certs contained unknown algorithms. Continuing anyway'')]\<rparr>
                     else rt\<lparr>ambient := w1\<rparr>)
          in if \<not> errors_Is err errX509UnknownAlgorithm \<and> err \<noteq> None
             then (err, dag, rt1)
             else (case dag_Merge g dag certDAG (ambient rt1) of
                     (dag', Some e, w2) \<Rightarrow>
                       (Some e, dag',
                        rt1\<lparr>ambient := w2,
                            logged := logged rt1 @ [(LevelError, Text ''Merging of DAGs failed'')]\<rparr>)
                   | (dag', None, w2) \<Rightarrow>
                       mergeCertificates g certificates dag' (rt1\<lparr>ambient := w2\<rparr>)))"

text \<open>
  Modelled from the spec: \<open>cdx.BOM\<close> is declared in the CycloneDX library; the plugin
  uses its two pointers to slices, \<open>Components\<close> and \<open>Dependencies\<close> (the fields
  \<open>BOM_Components\<close> and \<open>BOM_Dependencies\<close>, nil being \<open>None\<close>). The
  record is the BOM that the argument \<open>bom\<close> of \<open>UpdateBOM\<close> points to.
\<close>

record BOM =
  BOM_Components :: "Component list option"
  BOM_Dependencies :: "Dependency list option"

text \<open>
  The end of \<open>UpdateBOM\<close>: a nil slice pointer is set to an empty slice, the components
  are appended, and the dependencies are merged. The keys of \<open>dependencyMap\<close> come in
  the order the runtime yields them for this loop.
\<close>

definition UpdateBOM_append ::
    "BOM \<Rightarrow> Component list \<Rightarrow> (BOMReference \<rightharpoonup> string list) \<Rightarrow> BOMReference list \<Rightarrow> 'w runtime
      \<Rightarrow> go_panic + (BOM \<times> 'w runtime)" where
  "UpdateBOM_append bom components dependencyMap order rt =
     (let comps = (case BOM_Components bom of None \<Rightarrow> [] | Some cs \<Rightarrow> cs);
          bom1 = bom\<lparr>BOM_Components := Some (comps @ components)\<rparr>;
          deps = (case BOM_Dependencies bom1 of None \<Rightarrow> [] | Some ds \<Rightarrow> ds)
      in case dependencyMapToStructSlice dependencyMap order (targetsAt rt) (nextAddr rt) of
           (other, h1, next1) \<Rightarrow>
             andThen (MergeDependencyStructSlice deps other h1) (\<lambda>(merged, h2).
               Inr (bom1\<lparr>BOM_Dependencies := Some merged\<rparr>,
                    rt\<lparr>targetsAt := h2, nextAddr := next1\<rparr>)))"

text \<open>
  \<open>UpdateBOM\<close> after the walk, from the message that the search is done: the seed of
  the generator of identifiers is the constant 1, set before the graph is made. The result
  is the error it returns (or nil), the BOM and the state after it.
\<close>

definition UpdateBOM_graph ::
    "('cert, 'dag, 'w) graphs \<Rightarrow> BOM \<Rightarrow> 'cert list \<Rightarrow> 'w runtime
      \<Rightarrow> go_panic + (go_error option \<times> BOM \<times> 'w runtime)" where
  "UpdateBOM_graph g bom certificates rt =
     (let rt1 = rt\<lparr>logged := logged rt @ [(LevelInfo, Text ''Certificate searching done'')]\<rparr>;
          rt2 = rt1\<lparr>ambient := uuid_SetRand g 1 (ambient rt1)\<rparr>
      in case NewBomDAG g (ambient rt2) of
           (dag0, w0) \<Rightarrow>
             (case mergeCertificates g certificates dag0 (rt2\<lparr>ambient := w0\<rparr>) of
                (Some e, dag, rt3) \<Rightarrow> Inr (Some e, bom, rt3)
              | (None, dag, rt3) \<Rightarrow>
                  (case GetCDXComponents g dag (ambient rt3) of
                     (components, dependencyMap, Some e, w4) \<Rightarrow>
                       Inr (Some e, bom, rt3\<lparr>ambient := w4\<rparr>)
                   | (components, dependencyMap, None, w4) \<Rightarrow>
                       andThen (UpdateBOM_append bom components dependencyMap
                                  (rangeOrder g dependencyMap w4) (rt3\<lparr>ambient := w4\<rparr>))
                         (\<lambda>(bom', rt5). Inr (None, bom', rt5)))))"

text \<open>\<open>UpdateBOM\<close>: the walk, which ends the function when it returns an error, and the rest.\<close>

definition UpdateBOM ::
    "('cert, 'x509) decoders \<Rightarrow> ('cert, 'dag, 'w) graphs \<Rightarrow> 'cert list Filesystem \<Rightarrow> BOM \<Rightarrow> 'w runtime
      \<Rightarrow> (go_error option \<times> BOM \<times> 'w runtime) outcome" where
  "UpdateBOM env g fs bom rt =
     seq (WalkDir fs (UpdateBOM_fn env (ReadFile fs)) ([], logged rt)) (\<lambda>(err, certificates, lg).
       case err of
         Some e \<Rightarrow> Some (Inr (Some e, bom, rt\<lparr>logged := lg\<rparr>))
       | None \<Rightarrow> Some (UpdateBOM_graph g bom certificates (rt\<lparr>logged := lg\<rparr>)))"

section \<open>Example inputs\<close>

text \<open>
  A store with two algorithm assets (at address 0 with both lists present, at address 1
  with no certification levels), a certificate (at address 2) and a public key
  (at address 3), and components that point to them.
\<close>

definition exAlgorithmProperties :: CryptoAlgorithmProperties where
  "exAlgorithmProperties =
     \<lparr>Primitive = ''signature'', ExecutionEnvironment = ''unknown'',
      ImplementationPlatform = ''unknown'', CertificationLevel = Some 0, Padding = ''pkcs1v15'',
      CryptoFunctions = Some 0\<rparr>"

definition exCertificateProperties :: CertificateProperties where
  "exCertificateProperties =
     \<lparr>SignatureAlgorithmRef = ''old'', SubjectPublicKeyRef = ''old''\<rparr>"

definition exCryptoProperties :: "addr \<Rightarrow> CryptoProperties" where
  "exCryptoProperties x =
     (if x = 0 then \<lparr>AssetType = ''algorithm'', AlgorithmProperties = Some 0, CertificateProperties = None,
                      RelatedCryptoMaterialProperties = None, OID = ''1.2.840.113549.1.1.11''\<rparr>
      else if x = 1 then \<lparr>AssetType = ''algorithm'', AlgorithmProperties = Some 1, CertificateProperties = None,
                      RelatedCryptoMaterialProperties = None, OID = ''1.2.840.113549.1.1.11''\<rparr>
      else if x = 2 then \<lparr>AssetType = ''certificate'', AlgorithmProperties = None, CertificateProperties = Some 0,
                      RelatedCryptoMaterialProperties = None, OID = []\<rparr>
      else \<lparr>AssetType = ''related-crypto-material'', AlgorithmProperties = None, CertificateProperties = None,
                      RelatedCryptoMaterialProperties = Some 0, OID = []\<rparr>)"

definition exStore :: store where
  "exStore =
     \<lparr>cryptoPropertiesAt = exCryptoProperties,
      algorithmPropertiesAt =
        (\<lambda>y. if y = 0 then exAlgorithmProperties else exAlgorithmProperties\<lparr>CertificationLevel := None\<rparr>),
      certificatePropertiesAt = (\<lambda>y. exCertificateProperties),
      relatedCryptoMaterialPropertiesAt = (\<lambda>z. \<lparr>AlgorithmRef = ''old''\<rparr>),
      certificationLevelsAt = (\<lambda>l. [''none'']),
      cryptoFunctionsAt = (\<lambda>f. [''sign'', ''verify''])\<rparr>"

definition exAlgorithmA :: Component where
  "exAlgorithmA = \<lparr>BOMRef = ''ref-a'', Name = ''SHA256-RSA'', CryptoProperties = Some 0\<rparr>"

definition exAlgorithmB :: Component where
  "exAlgorithmB = \<lparr>BOMRef = ''ref-b'', Name = ''SHA256-RSA'', CryptoProperties = Some 0\<rparr>"

definition exBareAlgorithmA :: Component where
  "exBareAlgorithmA = \<lparr>BOMRef = ''ref-a'', Name = ''SHA256-RSA'', CryptoProperties = Some 1\<rparr>"

definition exBareAlgorithmB :: Component where
  "exBareAlgorithmB = \<lparr>BOMRef = ''ref-b'', Name = ''SHA256-RSA'', CryptoProperties = Some 1\<rparr>"

definition exCertificate :: Component where
  "exCertificate = \<lparr>BOMRef = ''cert'', Name = ''leaf'', CryptoProperties = Some 2\<rparr>"

definition exOldAlgorithm :: Component where
  "exOldAlgorithm = \<lparr>BOMRef = ''old'', Name = ''SHA256-RSA'', CryptoProperties = Some 0\<rparr>"

text \<open>Dependency records over a store of target slices.\<close>

definition exTargets :: targetStore where
  "exTargets a =
     (if a = 0 then [''x''] else if a = 1 then [''y'', ''x'', ''y'', ''z'']
      else if a = 2 then [''w''] else [])"




definition exMap :: "BOMReference \<rightharpoonup> string list" where
  "exMap = [''a'' \<mapsto> [''x''], ''b'' \<mapsto> [''y'']]"

text \<open>
  A toy decoder: a byte 1 is a block of type CERTIFICATE, a byte 2 a block of another
  type, and at any other byte no block is found. A certificate is the list of its bytes;
  parsing the empty input fails.
\<close>

definition exPemDecode :: "byte list \<Rightarrow> pem_Block option \<times> byte list" where
  "exPemDecode raw =
     (case raw of
        [] \<Rightarrow> (None, [])
      | b # rest \<Rightarrow>
          if b = 1 then (Some \<lparr>Type = ''CERTIFICATE'', Bytes = [b]\<rparr>, rest)
          else if b = 2 then (Some \<lparr>Type = ''PRIVATE KEY'', Bytes = [b]\<rparr>, rest)
          else (None, raw))"

definition exDecoders :: "(byte list, byte list) decoders" where
  "exDecoders =
     \<lparr>pem_Decode = exPemDecode,
      parseCertificatesToX509CertificateWithMetadata =
        (\<lambda>raw path. if raw = [] then ([], Some (ErrorString ''malformed certificate'')) else ([raw], None)),
      pkcs7_Parse = (\<lambda>raw. (None, Some (ErrorString ''malformed PKCS7''))),
      newX509CertificateWithMetadata = (\<lambda>cert path. (cert, None))\<rparr>"

text \<open>
  A toy graph: the list of the certificates merged so far. The certificate \<open>[9]\<close> has
  an unknown algorithm, \<open>[8]\<close> cannot be built at all, and the graph of \<open>[5]\<close>
  cannot be merged; the ambient state counts the identifiers drawn.
\<close>

definition exGraphs :: "(byte list, byte list list, nat) graphs" where
  "exGraphs =
     \<lparr>uuid_SetRand = (\<lambda>seed w. nat seed),
      NewBomDAG = (\<lambda>w. ([], w)),
      generateDAG = (\<lambda>cert w.
        if cert = [9] then ([cert], Some (Wrapping ''x509'' [errX509UnknownAlgorithm]), Suc w)
        else if cert = [8] then ([], Some (ErrorString ''no certificate''), w)
        else ([cert], None, Suc w)),
      dag_Merge = (\<lambda>dag certDAG w.
        if certDAG = [[5]] then (dag, Some (ErrorString ''merge conflict''), w)
        else (dag @ certDAG, None, w)),
      GetCDXComponents = (\<lambda>dag w.
        (map (\<lambda>cert. \<lparr>BOMRef = ''cert'', Name = ''cert'', CryptoProperties = None\<rparr>) dag,
         Map.empty, None, w)),
      rangeOrder = (\<lambda>m w. [])\<rparr>"

definition exRuntime :: "nat runtime" where
  "exRuntime = \<lparr>ambient = 0, targetsAt = exTargets, nextAddr = 3, logged = []\<rparr>"

definition exBOM :: BOM where
  "exBOM = \<lparr>BOM_Components = Some [exCertificate], BOM_Dependencies = None\<rparr>"

text \<open>
  Files: one that does not parse (\<open>bad.pem\<close>, empty), one that cannot be read
  (\<open>locked.pem\<close>), one whose certificate has an unknown algorithm
  (\<open>unknown.pem\<close>), and others that parse; two directories that hold some of them.
\<close>

definition exFile :: "string \<Rightarrow> DirEntry" where
  "exFile name = \<lparr>entryPath = ''/root/'' @ name, IsDir = False, entryErr = None, entryRel = (name, None)\<rparr>"

definition exFiles :: "string \<Rightarrow> byte list \<times> go_error option" where
  "exFiles name =
     (if name = ''bad.pem'' then ([], None)
      else if name = ''locked.pem'' then ([], Some (ErrorString ''permission denied''))
      else if name = ''unknown.pem'' then ([9], None)
      else ([48, 130], None))"


definition exPlainUnknown :: PlainFilesystem where
  "exPlainUnknown = \<lparr>rootPath = ''/root'', tree = [exFile ''unknown.pem''], files = exFiles\<rparr>"

definition loggedLevels :: "(go_error option \<times> BOM \<times> 'w runtime) outcome \<Rightarrow> log_level list option" where
  "loggedLevels r =
     (case r of Some (Inr (err, bom, rt)) \<Rightarrow> Some (map fst (logged rt)) | _ \<Rightarrow> None)"

definition returnedError :: "(go_error option \<times> BOM \<times> 'w runtime) outcome \<Rightarrow> go_error option option" where
  "returnedError r = (case r of Some (Inr (err, bom, rt)) \<Rightarrow> Some err | _ \<Rightarrow> None)"

definition viewSlice :: "Dependency list \<times> targetStore \<times> addr \<Rightarrow> (string \<times> string list) list" where
  "viewSlice r = (case r of (ds, h, next) \<Rightarrow> map (ownTargets h) ds)"

definition dependencyView :: "go_panic + (BOM \<times> 'w runtime) \<Rightarrow> go_panic + (string \<times> string list) list" where
  "dependencyView r =
     (case r of
        Inl e \<Rightarrow> Inl e
      | Inr (bom, rt) \<Rightarrow>
          Inr (map (ownTargets (targetsAt rt)) (case BOM_Dependencies bom of None \<Rightarrow> [] | Some ds \<Rightarrow> ds)))"

definition exCertificateBlock :: pem_Block where
  "exCertificateBlock = \<lparr>Type = ''CERTIFICATE'', Bytes = [1]\<rparr>"

definition exKeyBlock :: pem_Block where
  "exKeyBlock = \<lparr>Type = ''PRIVATE KEY'', Bytes = [2]\<rparr>"

section \<open>Properties of the equivalence\<close>

lemma deref_Some [simp]: "deref (Some x) h = Inr (h x)"
  by (simp add: deref_def)

lemma deref_None [simp]: "deref None h = Inl NilPointerDereference"
  by (simp add: deref_def)

lemma andalso_Inr [simp]: "andalso (Inr p) (Inr q) = Inr (p \<and> q)"
  by (cases p) simp_all

lemma eqOperands_Inr [simp]: "eqOperands (Inr x) (Inr y) = Inr (x = y)"
  by (simp add: eqOperands_def)

lemma cryptoProperty_Some:
  "CryptoProperties c = Some x \<Longrightarrow> cryptoProperty s c f = Inr (f (cryptoPropertiesAt s x))"
  by (simp add: cryptoProperty_def)

lemma algorithmProperty_Some:
  "CryptoProperties c = Some x \<Longrightarrow> AlgorithmProperties (cryptoPropertiesAt s x) = Some y \<Longrightarrow>
   algorithmProperty s c f = Inr (f (algorithmPropertiesAt s y))"
  by (simp add: algorithmProperty_def cryptoProperty_def)

lemma cryptoProperty_BOMRef [simp]: "cryptoProperty s (a\<lparr>BOMRef := r\<rparr>) f = cryptoProperty s a f"
  by (simp add: cryptoProperty_def)

lemma algorithmProperty_BOMRef [simp]: "algorithmProperty s (a\<lparr>BOMRef := r\<rparr>) f = algorithmProperty s a f"
  by (simp add: algorithmProperty_def)

lemma strippedAlgorithmEquals_ignores_BOMRef:
  "strippedAlgorithmEquals s (a\<lparr>BOMRef := r\<rparr>) (b\<lparr>BOMRef := r'\<rparr>) = strippedAlgorithmEquals s a b"
  by (simp add: strippedAlgorithmEquals_def cong: if_cong)

lemma strippedAlgorithmEquals_fields:
  assumes "algorithmFields s a = Some u" and "algorithmFields s b = Some v"
  shows "strippedAlgorithmEquals s a b = Inr (u = v)"
proof -
  from assms(1) obtain xa ya la fa where a:
    "CryptoProperties a = Some xa" "AssetType (cryptoPropertiesAt s xa) = CryptoAssetTypeAlgorithm"
    "AlgorithmProperties (cryptoPropertiesAt s xa) = Some ya"
    "CertificationLevel (algorithmPropertiesAt s ya) = Some la"
    "CryptoFunctions (algorithmPropertiesAt s ya) = Some fa"
    and u: "u = (Name a, Primitive (algorithmPropertiesAt s ya),
        ExecutionEnvironment (algorithmPropertiesAt s ya),
        ImplementationPlatform (algorithmPropertiesAt s ya), certificationLevelsAt s la,
        cryptoFunctionsAt s fa, OID (cryptoPropertiesAt s xa), Padding (algorithmPropertiesAt s ya))"
    by (auto simp: algorithmFields_def Let_def split: option.splits if_splits)
  from assms(2) obtain xb yb lb fb where b:
    "CryptoProperties b = Some xb" "AssetType (cryptoPropertiesAt s xb) = CryptoAssetTypeAlgorithm"
    "AlgorithmProperties (cryptoPropertiesAt s xb) = Some yb"
    "CertificationLevel (algorithmPropertiesAt s yb) = Some lb"
    "CryptoFunctions (algorithmPropertiesAt s yb) = Some fb"
    and v: "v = (Name b, Primitive (algorithmPropertiesAt s yb),
        ExecutionEnvironment (algorithmPropertiesAt s yb),
        ImplementationPlatform (algorithmPropertiesAt s yb), certificationLevelsAt s lb,
        cryptoFunctionsAt s fb, OID (cryptoPropertiesAt s xb), Padding (algorithmPropertiesAt s yb))"
    by (auto simp: algorithmFields_def Let_def split: option.splits if_splits)
  show ?thesis
    by (simp add: strippedAlgorithmEquals_def cryptoProperty_Some [OF a(1)]
        cryptoProperty_Some [OF b(1)] algorithmProperty_Some [OF a(1) a(3)]
        algorithmProperty_Some [OF b(1) b(3)] a b u v)
qed

text \<open>The explicit panic of the guard, and the run-time panics, told apart.\<close>

lemma andalso_no_panic:
  "l \<noteq> Inl (Panic m) \<Longrightarrow> r \<noteq> Inl (Panic m) \<Longrightarrow> andalso l r \<noteq> Inl (Panic m)"
  by (cases "(l, r)" rule: andalso.cases) auto

lemma andThen_no_panic:
  "l \<noteq> Inl (Panic m) \<Longrightarrow> (\<And>x. f x \<noteq> Inl (Panic m)) \<Longrightarrow> andThen l f \<noteq> Inl (Panic m)"
  by (cases l) auto

lemma deref_no_panic: "deref p h \<noteq> Inl (Panic m)"
  by (cases p) auto

lemma Inr_no_panic: "Inr x \<noteq> Inl (Panic m)"
  by simp

lemma cryptoProperty_no_panic: "cryptoProperty s c f \<noteq> Inl (Panic m)"
  by (simp add: cryptoProperty_def andThen_no_panic deref_no_panic)

lemma algorithmProperty_no_panic: "algorithmProperty s c f \<noteq> Inl (Panic m)"
  by (simp add: algorithmProperty_def andThen_no_panic deref_no_panic cryptoProperty_no_panic)

lemma eqOperands_no_panic:
  "l \<noteq> Inl (Panic m) \<Longrightarrow> r \<noteq> Inl (Panic m) \<Longrightarrow> eqOperands l r \<noteq> Inl (Panic m)"
  by (simp add: eqOperands_def andThen_no_panic)

lemmas no_panic = andalso_no_panic andThen_no_panic deref_no_panic cryptoProperty_no_panic
  algorithmProperty_no_panic eqOperands_no_panic Inr_no_panic

lemma equals_panics_left:
  "isNonAlgorithm s a \<Longrightarrow> strippedAlgorithmEquals s a b =
     Inl (Panic ''scanner: strippedAlgorithmEquals was called on a non-algorithm component'')"
  by (auto simp: isNonAlgorithm_def strippedAlgorithmEquals_def cryptoProperty_def split: option.splits)

lemma equals_panics_right:
  "isNonAlgorithm s b \<Longrightarrow> isl (strippedAlgorithmEquals s a b)"
  by (auto simp: isNonAlgorithm_def strippedAlgorithmEquals_def cryptoProperty_def deref_def
      split: option.splits)

lemma equals_panics_right_algorithm:
  "isAlgorithm s a \<Longrightarrow> isNonAlgorithm s b \<Longrightarrow> strippedAlgorithmEquals s a b =
     Inl (Panic ''scanner: strippedAlgorithmEquals was called on a non-algorithm component'')"
  by (auto simp: isNonAlgorithm_def isAlgorithm_def strippedAlgorithmEquals_def cryptoProperty_def
      deref_def split: option.splits)

lemma contains_panics_probe:
  "isNonAlgorithm s probe \<Longrightarrow> strippedAlgorithmContains s probe list =
     Inl (Panic ''scanner: strippedAlgorithmContains was called on a non-algorithm component'')"
  by (auto simp: isNonAlgorithm_def strippedAlgorithmContains_def cryptoProperty_def split: option.splits)

lemma equals_guard_unreachable:
  assumes "isAlgorithm s a" and "isAlgorithm s b"
  shows "strippedAlgorithmEquals s a b \<noteq> Inl (Panic m)"
proof -
  from assms obtain xa xb where
    a: "CryptoProperties a = Some xa" "AssetType (cryptoPropertiesAt s xa) = CryptoAssetTypeAlgorithm" and
    b: "CryptoProperties b = Some xb" "AssetType (cryptoPropertiesAt s xb) = CryptoAssetTypeAlgorithm"
    by (auto simp: isAlgorithm_def split: option.splits)
  show ?thesis
    unfolding strippedAlgorithmEquals_def
    apply (simp only: cryptoProperty_Some [OF a(1)] cryptoProperty_Some [OF b(1)] a b
        andThen.simps if_False simp_thms)
    apply (intro no_panic)
    done
qed

lemma containsLoop_guard_unreachable:
  "isAlgorithm s probe \<Longrightarrow> containsLoop s probe list \<noteq> Inl (Panic m)"
proof (induction list)
  case Nil
  then show ?case by simp
next
  case (Cons comp2 list)
  show ?case
  proof (cases "CryptoProperties comp2")
    case None
    then show ?thesis by (simp add: cryptoProperty_def eqOperands_def)
  next
    case (Some x)
    show ?thesis
    proof (cases "AssetType (cryptoPropertiesAt s x) = CryptoAssetTypeAlgorithm")
      case True
      then have "isAlgorithm s comp2" by (simp add: isAlgorithm_def Some)
      then have "strippedAlgorithmEquals s probe comp2 \<noteq> Inl (Panic m)"
        using Cons.prems equals_guard_unreachable by blast
      then show ?thesis using Cons True Some
        by (cases "strippedAlgorithmEquals s probe comp2") (auto simp: cryptoProperty_Some)
    next
      case False
      then show ?thesis using Cons Some by (simp add: cryptoProperty_Some)
    qed
  qed
qed

lemma contains_guard_unreachable:
  "isAlgorithm s probe \<Longrightarrow> strippedAlgorithmContains s probe list \<noteq> Inl (Panic m)"
  by (auto simp: strippedAlgorithmContains_def isAlgorithm_def cryptoProperty_Some
      containsLoop_guard_unreachable split: option.splits)

lemmas exStore_defs = exStore_def exCryptoProperties_def exAlgorithmProperties_def
  exCertificateProperties_def

text \<open>
  Claim C1, as amended. For every pair of components \<open>a\<close> and \<open>b\<close> that are
  algorithms and whose algorithm properties, certification-level list and crypto-function
  list are all present (no nil pointer), \<open>strippedAlgorithmEquals\<close> returns, and returns
  true exactly when the two agree on all eight of name, primitive, execution environment,
  implementation platform, certification levels, crypto functions, OID and padding
  (\<open>u = v\<close>); the \<open>BOMRef\<close> of either plays no role, since the result is the same
  for any other pair of identifiers.
\<close>

theorem strippedAlgorithmEquals_reference_blind:
  assumes "algorithmFields s a = Some u" and "algorithmFields s b = Some v"
  shows "strippedAlgorithmEquals s a b = Inr (u = v) \<and>
         strippedAlgorithmEquals s (a\<lparr>BOMRef := r\<rparr>) (b\<lparr>BOMRef := r'\<rparr>) = Inr (u = v)"
  using assms
  by (simp add: strippedAlgorithmEquals_fields strippedAlgorithmEquals_ignores_BOMRef)

theorem strippedAlgorithmEquals_reference_blind_witness:
  "algorithmFields exStore exAlgorithmA =
     Some (''SHA256-RSA'', ''signature'', ''unknown'', ''unknown'', [''none''], [''sign'', ''verify''],
           ''1.2.840.113549.1.1.11'', ''pkcs1v15'') \<and>
   algorithmFields exStore exAlgorithmB = algorithmFields exStore exAlgorithmA \<and>
   BOMRef exAlgorithmA \<noteq> BOMRef exAlgorithmB \<and>
   strippedAlgorithmEquals exStore exAlgorithmA exAlgorithmB = Inr True \<and>
   strippedAlgorithmEquals exStore (exAlgorithmA\<lparr>BOMRef := ''x''\<rparr>) (exAlgorithmB\<lparr>BOMRef := ''y''\<rparr>) = Inr True"
proof -
  have a: "algorithmFields exStore exAlgorithmA =
     Some (''SHA256-RSA'', ''signature'', ''unknown'', ''unknown'', [''none''], [''sign'', ''verify''],
           ''1.2.840.113549.1.1.11'', ''pkcs1v15'')"
    by (simp add: algorithmFields_def exStore_defs exAlgorithmA_def CryptoAssetTypeAlgorithm_def)
  have b: "algorithmFields exStore exAlgorithmB =
     Some (''SHA256-RSA'', ''signature'', ''unknown'', ''unknown'', [''none''], [''sign'', ''verify''],
           ''1.2.840.113549.1.1.11'', ''pkcs1v15'')"
    by (simp add: algorithmFields_def exStore_defs exAlgorithmB_def CryptoAssetTypeAlgorithm_def)
  have r: "BOMRef exAlgorithmA \<noteq> BOMRef exAlgorithmB"
    by (simp add: exAlgorithmA_def exAlgorithmB_def)
  show ?thesis
    using strippedAlgorithmEquals_reference_blind [OF a b, of "''x''" "''y''"] a b r by simp
qed

text \<open>
  The claim as it stands fails where a list is absent: two algorithm components that
  differ in nothing but their \<open>BOMRef\<close>, with no certification levels, are not judged
  equal; the call panics on the nil pointer.
\<close>

theorem strippedAlgorithmEquals_nil_list_counterexample:
  "isAlgorithm exStore exBareAlgorithmA \<and> isAlgorithm exStore exBareAlgorithmB \<and>
   exBareAlgorithmB = exBareAlgorithmA\<lparr>BOMRef := ''ref-b''\<rparr> \<and>
   strippedAlgorithmEquals exStore exBareAlgorithmA exBareAlgorithmB = Inl NilPointerDereference"
  by (simp add: isAlgorithm_def strippedAlgorithmEquals_def cryptoProperty_def algorithmProperty_def
      eqOperands_def exStore_defs exBareAlgorithmA_def exBareAlgorithmB_def
      CryptoAssetTypeAlgorithm_def)

text \<open>
  Claim C7. A component that is not an algorithm makes \<open>strippedAlgorithmEquals\<close> panic in
  either argument position (with the message of the guard when it is the first argument,
  or the second argument of an algorithm), and makes \<open>strippedAlgorithmContains\<close> panic
  when it is the probe; no result is returned. For a pair of algorithm components, and
  for an algorithm probe against any list, the \<open>panic\<close> statements are never reached.
\<close>

theorem non_algorithm_panics:
  "(isNonAlgorithm s a \<longrightarrow> strippedAlgorithmEquals s a b =
      Inl (Panic ''scanner: strippedAlgorithmEquals was called on a non-algorithm component'')) \<and>
   (isNonAlgorithm s b \<longrightarrow> isl (strippedAlgorithmEquals s a b)) \<and>
   (isAlgorithm s a \<and> isNonAlgorithm s b \<longrightarrow> strippedAlgorithmEquals s a b =
      Inl (Panic ''scanner: strippedAlgorithmEquals was called on a non-algorithm component'')) \<and>
   (isNonAlgorithm s a \<longrightarrow> strippedAlgorithmContains s a list =
      Inl (Panic ''scanner: strippedAlgorithmContains was called on a non-algorithm component'')) \<and>
   (isAlgorithm s a \<and> isAlgorithm s b \<longrightarrow> strippedAlgorithmEquals s a b \<noteq> Inl (Panic m)) \<and>
   (isAlgorithm s a \<longrightarrow> strippedAlgorithmContains s a list \<noteq> Inl (Panic m))"
  using equals_panics_left [of s a b] equals_panics_right [of s b a]
    equals_panics_right_algorithm [of s a b] contains_panics_probe [of s a list]
    equals_guard_unreachable [of s a b m] contains_guard_unreachable [of s a list m]
  by blast

theorem non_algorithm_panics_witness:
  "isNonAlgorithm exStore exCertificate \<and> isAlgorithm exStore exAlgorithmA \<and>
   isAlgorithm exStore exAlgorithmB \<and>
   strippedAlgorithmEquals exStore exCertificate exAlgorithmA =
      Inl (Panic ''scanner: strippedAlgorithmEquals was called on a non-algorithm component'') \<and>
   strippedAlgorithmEquals exStore exAlgorithmA exCertificate =
      Inl (Panic ''scanner: strippedAlgorithmEquals was called on a non-algorithm component'') \<and>
   strippedAlgorithmContains exStore exCertificate [exAlgorithmA] =
      Inl (Panic ''scanner: strippedAlgorithmContains was called on a non-algorithm component'') \<and>
   strippedAlgorithmEquals exStore exAlgorithmA exAlgorithmB \<noteq> Inl (Panic []) \<and>
   strippedAlgorithmContains exStore exAlgorithmA [exCertificate, exAlgorithmB] \<noteq> Inl (Panic [])"
proof -
  have c: "isNonAlgorithm exStore exCertificate"
    by (simp add: isNonAlgorithm_def exStore_defs exCertificate_def CryptoAssetTypeAlgorithm_def)
  have a: "isAlgorithm exStore exAlgorithmA"
    by (simp add: isAlgorithm_def exStore_defs exAlgorithmA_def CryptoAssetTypeAlgorithm_def)
  have b: "isAlgorithm exStore exAlgorithmB"
    by (simp add: isAlgorithm_def exStore_defs exAlgorithmB_def CryptoAssetTypeAlgorithm_def)
  show ?thesis
    using non_algorithm_panics [of exStore exCertificate exAlgorithmA "[exAlgorithmA]" "[]"]
      non_algorithm_panics [of exStore exAlgorithmA exCertificate "[]" "[]"]
      non_algorithm_panics [of exStore exAlgorithmA exAlgorithmB "[exCertificate, exAlgorithmB]" "[]"]
      a b c
    by blast
qed

section \<open>Properties of the merge of dependency records\<close>








lemma unionTargets_Nil [simp]: "unionTargets existing [] = existing"
  by (simp add: unionTargets_def)










lemma fst_ownTargets [simp]: "fst (ownTargets h d) = Ref d"
  by (simp add: ownTargets_def)

















lemmas merge_defs = IndexBomRefInDependencySlice_def ownTargets_def unionTargets_def







text \<open>
  Claim C2 does not hold of the code. The seed is the constant 1, but
  \<open>dependencyMapToStructSlice\<close> ranges over a Go map: for the same map, two orders in
  which the runtime may yield the keys give dependency records in two different orders,
  in the slice and in the BOM that \<open>UpdateBOM\<close> writes.
\<close>

theorem dependencyMapToStructSlice_order_varies:
  "isRangeOrder exMap [''a'', ''b''] \<and> isRangeOrder exMap [''b'', ''a''] \<and>
   viewSlice (dependencyMapToStructSlice exMap [''a'', ''b''] exTargets 3) =
     [(''a'', [''x'']), (''b'', [''y''])] \<and>
   viewSlice (dependencyMapToStructSlice exMap [''b'', ''a''] exTargets 3) =
     [(''b'', [''y'']), (''a'', [''x''])] \<and>
   dependencyView (UpdateBOM_append exBOM [] exMap [''a'', ''b''] exRuntime) =
     Inr [(''a'', [''x'']), (''b'', [''y''])] \<and>
   dependencyView (UpdateBOM_append exBOM [] exMap [''b'', ''a''] exRuntime) =
     Inr [(''b'', [''y'']), (''a'', [''x''])]"
  by (auto simp: isRangeOrder_def viewSlice_def dependencyView_def UpdateBOM_append_def
      dependencyMapToStructSlice_def exBOM_def exMap_def exRuntime_def merge_defs exTargets_def)

text \<open>
  Claim C3 does not hold of the code. After
  \<open>replaceBomRefUsages(''old'', ''new'', components)\<close> the component whose own
  \<open>BOMRef\<close> was \<open>''old''\<close> still carries it (the assignment changed the loop
  variable, a copy), and of the two reference fields of the certificate that were
  \<open>''old''\<close> only the first is rewritten (the \<open>continue\<close> after it skips the
  second).
\<close>

theorem replaceBomRefUsages_leaves_references:
  "map (refsOf exStore) [exOldAlgorithm, exCertificate] = [[''old''], [''cert'', ''old'', ''old'']] \<and>
   (\<exists>components s'.
      replaceBomRefUsages ''old'' ''new'' (Some [exOldAlgorithm, exCertificate]) exStore =
        Inr (components, s') \<and>
      map (refsOf s') components = [[''old''], [''cert'', ''new'', ''old'']])"
  by (simp add: replaceBomRefUsages_def replaceBody_def refsOf_def exStore_defs exOldAlgorithm_def
      exCertificate_def Let_def)

section \<open>Properties of the decoding functions\<close>

lemma decodeBlocks_pemBlocks:
  "pemBlocks decode rest bs \<Longrightarrow>
   decodeBlocks decode rest blocks lg =
     Some (blocks @ certificateBlocks bs, lg @ unsupportedWarnings bs)"
proof (induction arbitrary: blocks lg rule: pemBlocks.induct)
  case (used_up decode)
  show ?case
    by (subst decodeBlocks.simps) (simp add: certificateBlocks_def unsupportedWarnings_def)
next
  case (no_block rest decode)
  then show ?case
    by (subst decodeBlocks.simps)
      (auto simp: certificateBlocks_def unsupportedWarnings_def split: prod.splits option.splits)
next
  case (block rest decode b rest' bs)
  show ?case
  proof (cases "Type b = ''CERTIFICATE''")
    case True
    with block.hyps have "decodeBlocks decode rest blocks lg = decodeBlocks decode rest' (blocks @ [b]) lg"
      by (subst decodeBlocks.simps) simp
    also have "\<dots> = Some ((blocks @ [b]) @ certificateBlocks bs, lg @ unsupportedWarnings bs)"
      by (rule block.IH)
    finally show ?thesis using True by (simp add: certificateBlocks_def unsupportedWarnings_def)
  next
    case False
    with block.hyps have "decodeBlocks decode rest blocks lg =
        decodeBlocks decode rest' blocks
          (lg @ [(LevelWarn, Text ''PEM file contains part that is not yet supported, continuing anyway'')])"
      by (subst decodeBlocks.simps) simp
    also have "\<dots> = Some (blocks @ certificateBlocks bs,
        (lg @ [(LevelWarn, Text ''PEM file contains part that is not yet supported, continuing anyway'')])
          @ unsupportedWarnings bs)"
      by (rule block.IH)
    finally show ?thesis using False by (simp add: certificateBlocks_def unsupportedWarnings_def)
  qed
qed



lemma parsex509_blocks:
  assumes "pemBlocks (pem_Decode env) raw bs"
  shows "parsex509CertFromPath env raw path lg =
     Some (if certificateBlocks bs = []
           then parseCertificatesToX509CertificateWithMetadata env raw path
           else parseBlocks (parseCertificatesToX509CertificateWithMetadata env) path (certificateBlocks bs) [],
           lg @ unsupportedWarnings bs)"
  unfolding parsex509CertFromPath_def decodeBlocks_pemBlocks [OF assms] by simp

lemma exPemDecode_simps:
  "exPemDecode [] = (None, [])"
  "exPemDecode (1 # rest) = (Some exCertificateBlock, rest)"
  "exPemDecode (2 # rest) = (Some exKeyBlock, rest)"
  "exPemDecode (7 # rest) = (None, 7 # rest)"
  "exPemDecode (48 # rest) = (None, 48 # rest)"
  by (simp_all add: exPemDecode_def exCertificateBlock_def exKeyBlock_def)




text \<open>
  Claim C8 does not hold of the code. For every input in which \<open>pem.Decode\<close> finds no
  block, \<open>parsePKCS7FromPath\<close> does not return a list or an error: it panics on the
  nil block.
\<close>

theorem parsePKCS7FromPath_panics_without_block:
  assumes "fst (pem_Decode env raw) = None"
  shows "parsePKCS7FromPath env raw path = Inl NilPointerDereference"
  using assms by (simp add: parsePKCS7FromPath_def)

theorem parsePKCS7FromPath_panics_without_block_witness:
  "fst (pem_Decode exDecoders [48, 130]) = None \<and>
   parsePKCS7FromPath exDecoders [48, 130] ''bundle.p7b'' = Inl NilPointerDereference"
proof -
  have n: "fst (pem_Decode exDecoders [48, 130]) = None"
    by (simp add: exDecoders_def exPemDecode_simps)
  from parsePKCS7FromPath_panics_without_block [OF n] n show ?thesis by simp
qed

section \<open>Properties of the walk and of the plugin\<close>








lemma merge_unknown_algorithm:
  "generateDAG g cert (ambient rt) = (certDAG, err, w1) \<Longrightarrow> errors_Is err errX509UnknownAlgorithm \<Longrightarrow>
   dag_Merge g dag certDAG w1 = (dag', None, w2) \<Longrightarrow>
   mergeCertificates g (cert # certificates) dag rt =
     mergeCertificates g certificates dag'
       (rt\<lparr>logged := logged rt @
             [(LevelInfo, Text ''X.509 certs contained unknown algorithms. Continuing anyway'')],
           ambient := w2\<rparr>)"
  by (simp add: Let_def)

lemma merge_other_error:
  "generateDAG g cert (ambient rt) = (certDAG, Some e, w1) \<Longrightarrow>
   \<not> errors_Is (Some e) errX509UnknownAlgorithm \<Longrightarrow>
   mergeCertificates g (cert # certificates) dag rt = (Some e, dag, rt\<lparr>ambient := w1\<rparr>)"
  by (simp add: Let_def)

lemma merge_failure:
  "generateDAG g cert (ambient rt) = (certDAG, err, w1) \<Longrightarrow>
   err = None \<or> errors_Is err errX509UnknownAlgorithm \<Longrightarrow>
   dag_Merge g dag certDAG w1 = (dag', Some e, w2) \<Longrightarrow>
   fst (mergeCertificates g (cert # certificates) dag rt) = Some e"
  by (auto simp: Let_def)

lemma UpdateBOM_graph_error:
  "NewBomDAG g (uuid_SetRand g 1 (ambient rt)) = (dag0, w0) \<Longrightarrow>
   mergeCertificates g certificates dag0
     (rt\<lparr>logged := logged rt @ [(LevelInfo, Text ''Certificate searching done'')], ambient := w0\<rparr>) =
     (Some e, dag, rt') \<Longrightarrow>
   UpdateBOM_graph g bom certificates rt = Inr (Some e, bom, rt')"
  by (simp add: UpdateBOM_graph_def Let_def)


lemma parsex509_no_pem:
  "raw \<noteq> [] \<Longrightarrow> fst (pem_Decode env raw) = None \<Longrightarrow>
   parsex509CertFromPath env raw path lg =
     Some (parseCertificatesToX509CertificateWithMetadata env raw path, lg)"
  using parsex509_blocks [OF pemBlocks.no_block, of raw env path lg]
  by (simp add: certificateBlocks_def unsupportedWarnings_def)


lemma filepath_Ext_examples:
  "filepath_Ext ''bad.pem'' = ''.pem''" "filepath_Ext ''good.pem'' = ''.pem''"
  "filepath_Ext ''locked.pem'' = ''.pem''" "filepath_Ext ''unknown.pem'' = ''.pem''"
  "filepath_Ext ''other.pem'' = ''.pem''"
  by (simp_all add: filepath_Ext_def)



lemma exFn_unknown:
  "UpdateBOM_fn exDecoders exFiles ''unknown.pem'' (c, lg) = Some (Inr (None, c @ [[9]], lg))"
  by (simp add: UpdateBOM_fn_def filepath_Ext_examples certificateExtensions_def exFiles_def
      parsex509_no_pem exDecoders_def exPemDecode_def)


text \<open>
  Claim C5, as amended. When the construction of a certificate's subgraph fails with an
  error that is the UnknownAlgorithm condition (\<open>errors.Is\<close> with
  \<open>errX509UnknownAlgorithm\<close>), \<open>UpdateBOM\<close> does not abort: a message is logged at
  the level Info, the partial graph returned alongside the error is merged into the
  running graph, and the loop continues with the next certificate. Any other error of the
  construction ends \<open>UpdateBOM\<close> with that error, and so does a failure of the merge.
\<close>

theorem unknown_algorithm_continues:
  "(generateDAG g cert (ambient rt) = (certDAG, err, w1) \<and>
    errors_Is err errX509UnknownAlgorithm \<and> dag_Merge g dag certDAG w1 = (dag', None, w2) \<longrightarrow>
      mergeCertificates g (cert # certificates) dag rt =
        mergeCertificates g certificates dag'
          (rt\<lparr>logged := logged rt @
                [(LevelInfo, Text ''X.509 certs contained unknown algorithms. Continuing anyway'')],
              ambient := w2\<rparr>)) \<and>
   (generateDAG g cert (ambient rt) = (certDAG, Some e, w1) \<and>
    \<not> errors_Is (Some e) errX509UnknownAlgorithm \<longrightarrow>
      mergeCertificates g (cert # certificates) dag rt = (Some e, dag, rt\<lparr>ambient := w1\<rparr>)) \<and>
   (generateDAG g cert (ambient rt) = (certDAG, err, w1) \<and>
    (err = None \<or> errors_Is err errX509UnknownAlgorithm) \<and>
    dag_Merge g dag certDAG w1 = (dag', Some e, w2) \<longrightarrow>
      fst (mergeCertificates g (cert # certificates) dag rt) = Some e) \<and>
   (NewBomDAG g (uuid_SetRand g 1 (ambient rt)) = (dag0, w0) \<and>
    mergeCertificates g found dag0
      (rt\<lparr>logged := logged rt @ [(LevelInfo, Text ''Certificate searching done'')], ambient := w0\<rparr>) =
      (Some e, dag1, rt') \<longrightarrow>
      UpdateBOM_graph g bom found rt = Inr (Some e, bom, rt')) \<and>
   (WalkDir fs (UpdateBOM_fn env (ReadFile fs)) ([], logged rt) = Some (Inr (None, found, lg)) \<longrightarrow>
      UpdateBOM env g fs bom rt = Some (UpdateBOM_graph g bom found (rt\<lparr>logged := lg\<rparr>)))"
  using merge_unknown_algorithm [of g cert rt certDAG err w1 dag dag' w2 certificates]
    merge_other_error [of g cert rt certDAG e w1 certificates dag]
    merge_failure [of g cert rt certDAG err w1 dag dag' e w2 certificates]
    UpdateBOM_graph_error [of g rt dag0 w0 found e dag1 rt' bom]
  by (simp add: UpdateBOM_def)

theorem unknown_algorithm_continues_witness:
  "errors_Is (Some (Wrapping ''x509'' [errX509UnknownAlgorithm])) errX509UnknownAlgorithm \<and>
   \<not> errors_Is (Some (ErrorString ''no certificate'')) errX509UnknownAlgorithm \<and>
   mergeCertificates exGraphs [[9], [3]] [] exRuntime =
     mergeCertificates exGraphs [[3]] [[9]]
       (exRuntime\<lparr>logged :=
            [(LevelInfo, Text ''X.509 certs contained unknown algorithms. Continuing anyway'')],
          ambient := 1\<rparr>) \<and>
   mergeCertificates exGraphs [[8], [3]] [] exRuntime =
     (Some (ErrorString ''no certificate''), [], exRuntime) \<and>
   fst (mergeCertificates exGraphs [[5], [3]] [] exRuntime) = Some (ErrorString ''merge conflict'') \<and>
   UpdateBOM_graph exGraphs exBOM [[8]] exRuntime =
     Inr (Some (ErrorString ''no certificate''), exBOM,
          exRuntime\<lparr>logged := [(LevelInfo, Text ''Certificate searching done'')], ambient := 1\<rparr>) \<and>
   returnedError (UpdateBOM exDecoders exGraphs (plainFilesystem exPlainUnknown) exBOM exRuntime) =
     Some None"
proof -
  have u: "errors_Is (Some (Wrapping ''x509'' [errX509UnknownAlgorithm])) errX509UnknownAlgorithm"
    by (simp add: errors_Is_def)
  have n: "\<not> errors_Is (Some (ErrorString ''no certificate'')) errX509UnknownAlgorithm"
    by (simp add: errors_Is_def)
  have w: "WalkDir (plainFilesystem exPlainUnknown)
      (UpdateBOM_fn exDecoders (ReadFile (plainFilesystem exPlainUnknown))) ([], logged exRuntime) =
      Some (Inr (None, [[9]], []))"
    by (simp add: plainFilesystem_def PlainFilesystem_WalkDir_def exPlainUnknown_def exFile_def
        walkDirFn_def exFn_unknown exRuntime_def)
  have g: "UpdateBOM_graph exGraphs exBOM [[9]] (exRuntime\<lparr>logged := []\<rparr>) =
      Inr (None, exBOM\<lparr>BOM_Components := Some [exCertificate,
               \<lparr>BOMRef = ''cert'', Name = ''cert'', CryptoProperties = None\<rparr>],
             BOM_Dependencies := Some []\<rparr>,
           exRuntime\<lparr>logged := [(LevelInfo, Text ''Certificate searching done''),
               (LevelInfo, Text ''X.509 certs contained unknown algorithms. Continuing anyway'')],
             ambient := 2\<rparr>)"
    by (simp add: UpdateBOM_graph_def exGraphs_def exRuntime_def errors_Is_def Let_def
        UpdateBOM_append_def dependencyMapToStructSlice_def exBOM_def)
  note t9 = unknown_algorithm_continues [where g = exGraphs and cert = "[9]" and rt = exRuntime
        and certDAG = "[[9]]" and err = "Some (Wrapping ''x509'' [errX509UnknownAlgorithm])"
        and ?w1.0 = 1 and dag = "[]" and dag' = "[[9]]" and ?w2.0 = 1 and certificates = "[[3]]"
        and e = "ErrorString ''no certificate''" and ?dag0.0 = "[]" and ?w0.0 = 1 and found = "[[9]]"
        and ?dag1.0 = "[]" and rt' = exRuntime and bom = exBOM
        and fs = "plainFilesystem exPlainUnknown" and env = exDecoders and lg = "[]"]
  note t8 = unknown_algorithm_continues [where g = exGraphs and cert = "[8]" and rt = exRuntime
        and certDAG = "[]" and e = "ErrorString ''no certificate''" and ?w1.0 = 0 and dag = "[]"
        and certificates = "[[3]]" and ?dag0.0 = "[]" and ?w0.0 = 1 and found = "[[8]]"
        and ?dag1.0 = "[]" and bom = exBOM
        and rt' = "exRuntime\<lparr>logged := [(LevelInfo, Text ''Certificate searching done'')], ambient := 1\<rparr>"
        and err = "Some (ErrorString ''no certificate'')" and dag' = "[]" and ?w2.0 = 0
        and fs = "plainFilesystem exPlainUnknown" and env = exDecoders and lg = "[]"]
  note t5 = unknown_algorithm_continues [where g = exGraphs and cert = "[5]" and rt = exRuntime
        and certDAG = "[[5]]" and err = None and ?w1.0 = 1 and dag = "[]" and dag' = "[]"
        and ?w2.0 = 1 and certificates = "[[3]]" and e = "ErrorString ''merge conflict''"
        and ?dag0.0 = "[]" and ?w0.0 = 1 and found = "[[5]]" and ?dag1.0 = "[]" and bom = exBOM
        and rt' = exRuntime and fs = "plainFilesystem exPlainUnknown" and env = exDecoders
        and lg = "[]"]
  from t9 u have c1: "mergeCertificates exGraphs [[9], [3]] [] exRuntime =
     mergeCertificates exGraphs [[3]] [[9]]
       (exRuntime\<lparr>logged :=
            [(LevelInfo, Text ''X.509 certs contained unknown algorithms. Continuing anyway'')],
          ambient := 1\<rparr>)"
    by (simp add: exGraphs_def exRuntime_def)
  from t8 n have c2: "mergeCertificates exGraphs [[8], [3]] [] exRuntime =
     (Some (ErrorString ''no certificate''), [], exRuntime)"
    by (simp add: exGraphs_def exRuntime_def)
  from t5 have c3: "fst (mergeCertificates exGraphs [[5], [3]] [] exRuntime) =
      Some (ErrorString ''merge conflict'')"
    by (simp add: exGraphs_def exRuntime_def)
  from t8 n have c4: "UpdateBOM_graph exGraphs exBOM [[8]] exRuntime =
     Inr (Some (ErrorString ''no certificate''), exBOM,
          exRuntime\<lparr>logged := [(LevelInfo, Text ''Certificate searching done'')], ambient := 1\<rparr>)"
    by (simp add: exGraphs_def exRuntime_def errors_Is_def Let_def)
  from t9 w have c5: "UpdateBOM exDecoders exGraphs (plainFilesystem exPlainUnknown) exBOM exRuntime =
      Some (UpdateBOM_graph exGraphs exBOM [[9]] (exRuntime\<lparr>logged := []\<rparr>))"
    by blast
  show ?thesis using u n c1 c2 c3 c4 by (simp add: c5 g returnedError_def)
qed

text \<open>
  The claim as it stands says that a warning is logged. On a filesystem with one
  certificate whose algorithm is unknown, \<open>UpdateBOM\<close> returns no error and logs two
  messages, both at the level Info (\<open>slog.Info\<close>): none is a warning.
\<close>

theorem unknown_algorithm_no_warning_counterexample:
  "errors_Is (fst (snd (generateDAG exGraphs [9] 1))) errX509UnknownAlgorithm \<and>
   returnedError (UpdateBOM exDecoders exGraphs (plainFilesystem exPlainUnknown) exBOM exRuntime) =
     Some None \<and>
   loggedLevels (UpdateBOM exDecoders exGraphs (plainFilesystem exPlainUnknown) exBOM exRuntime) =
     Some [LevelInfo, LevelInfo]"
  by (simp add: loggedLevels_def returnedError_def UpdateBOM_def plainFilesystem_def
      PlainFilesystem_WalkDir_def exPlainUnknown_def exFile_def walkDirFn_def exFn_unknown
      UpdateBOM_graph_def exGraphs_def exRuntime_def errors_Is_def Let_def UpdateBOM_append_def
      dependencyMapToStructSlice_def exBOM_def)



end
